theory Spec2Isabelle
  imports Main "HOL-Library.Word" "HOL-Library.Code_Target_Numeral"
begin

section \<open>JavaScript values\<close>

text \<open>
  Filter values are typed \<^verbatim>\<open>any\<close> in \<^verbatim>\<open>types.ts\<close>. The values the field renderer
  produces are strings, numbers, booleans, arrays of option values and range objects
  (\<^verbatim>\<open>{from, to}\<close>, \<^verbatim>\<open>{min, max}\<close>); \<^verbatim>\<open>undefined\<close> and \<^verbatim>\<open>null\<close> occur as "no value".
  A number is an integer from \<open>- 2^53\<close> to \<open>2^53 - 1\<close>, held as a signed 54-bit word: each of
  them is a JavaScript number, and \<^verbatim>\<open>String\<close> and \<^verbatim>\<open>JSON.stringify\<close> write it with all its
  decimal digits. Fractions, \<^verbatim>\<open>NaN\<close> and the infinities are outside the model. An object is
  its list of own properties in insertion order.
\<close>

datatype jsvalue =
    JUndefined
  | JNull
  | JBool bool
  | JNum "54 word"
  | JStr string
  | JArr "jsvalue list"
  | JObj "(string \<times> jsvalue) list"

text \<open>Truthiness, as used by \<^verbatim>\<open>||\<close> and \<^verbatim>\<open>!!\<close>.\<close>

fun truthy :: "jsvalue \<Rightarrow> bool" where
  "truthy JUndefined = False"
| "truthy JNull = False"
| "truthy (JBool b) = b"
| "truthy (JNum n) = (n \<noteq> 0)"
| "truthy (JStr s) = (s \<noteq> [])"
| "truthy (JArr xs) = True"
| "truthy (JObj kvs) = True"

text \<open>Property read \<^verbatim>\<open>obj.key\<close>: a missing property reads as \<^verbatim>\<open>undefined\<close>.\<close>

definition getProp :: "(string \<times> jsvalue) list \<Rightarrow> string \<Rightarrow> jsvalue" where
  "getProp kvs k = (case map_of kvs k of None \<Rightarrow> JUndefined | Some v \<Rightarrow> v)"

subsection \<open>Number and string rendering\<close>

fun digits :: "nat \<Rightarrow> string" where
  "digits n =
     (if n < 10 then [''0123456789'' ! n]
      else digits (n div 10) @ [''0123456789'' ! (n mod 10)])"

declare digits.simps [simp del]

text \<open>
  \<^verbatim>\<open>Number.prototype.toString\<close> on the numbers of the model. The other two numbers written
  with \<open>digits\<close> below are a reading of \<^verbatim>\<open>Date.now()\<close> and an array index, both natural
  numbers below \<open>2^53\<close>.
\<close>

definition numberToString :: "54 word \<Rightarrow> string" where
  "numberToString w =
     (if sint w < 0 then ''-'' @ digits (nat (- sint w)) else digits (nat (sint w)))"

fun join :: "string \<Rightarrow> string list \<Rightarrow> string" where
  "join sep [] = []"
| "join sep [x] = x"
| "join sep (x # y # ys) = x @ sep @ join sep (y # ys)"

text \<open>
  \<^verbatim>\<open>String(v)\<close>, which a template literal applies to \<^verbatim>\<open>${v}\<close>: an array joins its
  elements with commas (\<^verbatim>\<open>undefined\<close> and \<^verbatim>\<open>null\<close> elements as the empty string), a plain
  object is \<^verbatim>\<open>[object Object]\<close>.
\<close>

fun toString :: "jsvalue \<Rightarrow> string" where
  "toString JUndefined = ''undefined''"
| "toString JNull = ''null''"
| "toString (JBool b) = (if b then ''true'' else ''false'')"
| "toString (JNum n) = numberToString n"
| "toString (JStr s) = s"
| "toString (JArr xs) =
     join '','' (map (\<lambda>x. if x = JUndefined \<or> x = JNull then [] else toString x) xs)"
| "toString (JObj kvs) = ''[object Object]''"

subsection \<open>\<^verbatim>\<open>JSON.stringify\<close>\<close>

text \<open>
  The library function the toolbar and the controller compare values with. It returns
  \<^verbatim>\<open>undefined\<close> (here \<open>None\<close>) for \<^verbatim>\<open>undefined\<close>; inside an array \<^verbatim>\<open>undefined\<close> is
  written \<^verbatim>\<open>null\<close>, inside an object a property whose value is \<^verbatim>\<open>undefined\<close> is left out.
\<close>

definition hexDigit :: "nat \<Rightarrow> char" where
  "hexDigit n = ''0123456789abcdef'' ! n"

definition quoteChar :: "char \<Rightarrow> string" where
  "quoteChar c =
     (if c = CHR 0x22 then [CHR 0x5C, CHR 0x22]
      else if c = CHR 0x5C then [CHR 0x5C, CHR 0x5C]
      else if c = CHR 0x08 then [CHR 0x5C, CHR ''b'']
      else if c = CHR 0x0C then [CHR 0x5C, CHR ''f'']
      else if c = CHR 0x0A then [CHR 0x5C, CHR ''n'']
      else if c = CHR 0x0D then [CHR 0x5C, CHR ''r'']
      else if c = CHR 0x09 then [CHR 0x5C, CHR ''t'']
      else if (of_char c :: nat) < 32
        then [CHR 0x5C, CHR ''u'', CHR ''0'', CHR ''0'',
              hexDigit (of_char c div 16), hexDigit (of_char c mod 16)]
      else [c])"

definition quoteJSONString :: "string \<Rightarrow> string" where
  "quoteJSONString s = [CHR 0x22] @ concat (map quoteChar s) @ [CHR 0x22]"

fun stringify :: "jsvalue \<Rightarrow> string option" where
  "stringify JUndefined = None"
| "stringify JNull = Some ''null''"
| "stringify (JBool b) = Some (if b then ''true'' else ''false'')"
| "stringify (JNum n) = Some (numberToString n)"
| "stringify (JStr s) = Some (quoteJSONString s)"
| "stringify (JArr xs) =
     Some (''['' @ join '','' (map (\<lambda>x. case stringify x of None \<Rightarrow> ''null'' | Some s \<Rightarrow> s) xs)
           @ '']'')"
| "stringify (JObj kvs) =
     Some (''{'' @ join '','' (concat (map (\<lambda>(k, v). case stringify v of
                                                    None \<Rightarrow> []
                                                  | Some s \<Rightarrow> [quoteJSONString k @ '':'' @ s]) kvs))
           @ ''}'')"


section \<open>Data model (\<^verbatim>\<open>types.ts\<close>)\<close>

datatype FilterFieldType =
    Ty_text | Ty_select | Ty_multiselect | Ty_date
  | Ty_checkbox | Ty_number | Ty_numberrange | Ty_boolean

text \<open>
  \<^verbatim>\<open>FilterOperator\<close>: the union of \<^verbatim>\<open>'regex' | 'eq'\<close>, \<^verbatim>\<open>ComparisonOp\<close>,
  \<^verbatim>\<open>'eq' | 'in'\<close>, \<^verbatim>\<open>CollectionOp\<close>, \<^verbatim>\<open>'eq' | 'exists'\<close> and \<^verbatim>\<open>DateFilterType\<close>
  (\<^verbatim>\<open>search.ts\<close>). \<open>Op_ge\<close> and \<open>Op_le\<close> are the date operators \<^verbatim>\<open>'>='\<close> and \<^verbatim>\<open>'<='\<close>.
\<close>

datatype FilterOperator =
    Op_regex | Op_eq | Op_lt | Op_lte | Op_gt | Op_gte
  | Op_in | Op_all | Op_nin | Op_exists
  | Op_on | Op_ge | Op_le | Op_today | Op_between

fun operatorString :: "FilterOperator \<Rightarrow> string" where
  "operatorString Op_regex = ''regex''"
| "operatorString Op_eq = ''eq''"
| "operatorString Op_lt = ''lt''"
| "operatorString Op_lte = ''lte''"
| "operatorString Op_gt = ''gt''"
| "operatorString Op_gte = ''gte''"
| "operatorString Op_in = ''in''"
| "operatorString Op_all = ''all''"
| "operatorString Op_nin = ''nin''"
| "operatorString Op_exists = ''exists''"
| "operatorString Op_on = ''on''"
| "operatorString Op_ge = ''>=''"
| "operatorString Op_le = ''<=''"
| "operatorString Op_today = ''today''"
| "operatorString Op_between = ''between''"

record FilterOption =
  fo_value :: string
  fo_label :: string

record OperatorOption =
  o_value :: FilterOperator
  o_label :: string

text \<open>\<^verbatim>\<open>AvailableFilter\<close>; an optional field (\<^verbatim>\<open>?:\<close>) is an \<open>option\<close>.\<close>

record AvailableFilter =
  d_id :: string
  d_label :: string
  d_type :: FilterFieldType
  d_options :: "FilterOption list option"
  d_placeholder :: "string option"
  d_operators :: "OperatorOption list option"
  d_defaultOperator :: "FilterOperator option"

text \<open>
  \<^verbatim>\<open>ActiveFilter\<close>. The operator is an \<open>option\<close> because the toolbar can store
  \<^verbatim>\<open>undefined\<close> there: \<^verbatim>\<open>operators[0]?.value\<close> cast \<^verbatim>\<open>as FilterOperator\<close> is \<^verbatim>\<open>undefined\<close>
  for a definition whose \<^verbatim>\<open>operators\<close> is the empty array.
\<close>

record ActiveFilter =
  a_id :: string
  a_filterId :: string
  a_operator :: "FilterOperator option"
  a_value :: jsvalue

text \<open>
  An \<^verbatim>\<open>ActiveFilter\<close> as the object \<^verbatim>\<open>JSON.stringify\<close> sees, with its properties in the
  order of the interface (the order every object literal of the source uses).
\<close>

definition filterObject :: "ActiveFilter \<Rightarrow> jsvalue" where
  "filterObject f =
     JObj [(''id'', JStr (a_id f)),
           (''filterId'', JStr (a_filterId f)),
           (''operator'', (case a_operator f of None \<Rightarrow> JUndefined
                                             | Some op \<Rightarrow> JStr (operatorString op))),
           (''value'', a_value f)]"

definition stringifyFilters :: "ActiveFilter list \<Rightarrow> string option" where
  "stringifyFilters fs = stringify (JArr (map filterObject fs))"

text \<open>\<^verbatim>\<open>DEFAULT_OPERATORS\<close>, \<^verbatim>\<open>types.ts\<close> lines 123-160.\<close>

fun DEFAULT_OPERATORS :: "FilterFieldType \<Rightarrow> OperatorOption list" where
  "DEFAULT_OPERATORS Ty_text =
     [\<lparr>o_value = Op_regex, o_label = ''Contains''\<rparr>,
      \<lparr>o_value = Op_eq, o_label = ''Equals''\<rparr>]"
| "DEFAULT_OPERATORS Ty_number =
     [\<lparr>o_value = Op_eq, o_label = ''Equals''\<rparr>,
      \<lparr>o_value = Op_gt, o_label = ''Greater than''\<rparr>,
      \<lparr>o_value = Op_gte, o_label = ''Greater or equal''\<rparr>,
      \<lparr>o_value = Op_lt, o_label = ''Less than''\<rparr>,
      \<lparr>o_value = Op_lte, o_label = ''Less or equal''\<rparr>]"
| "DEFAULT_OPERATORS Ty_numberrange =
     [\<lparr>o_value = Op_gte, o_label = ''Between''\<rparr>]"
| "DEFAULT_OPERATORS Ty_select =
     [\<lparr>o_value = Op_eq, o_label = ''Equals''\<rparr>]"
| "DEFAULT_OPERATORS Ty_multiselect =
     [\<lparr>o_value = Op_in, o_label = ''Includes any''\<rparr>,
      \<lparr>o_value = Op_all, o_label = ''Includes all''\<rparr>,
      \<lparr>o_value = Op_nin, o_label = ''Excludes''\<rparr>]"
| "DEFAULT_OPERATORS Ty_boolean =
     [\<lparr>o_value = Op_eq, o_label = ''Equals''\<rparr>,
      \<lparr>o_value = Op_exists, o_label = ''Exists''\<rparr>]"
| "DEFAULT_OPERATORS Ty_checkbox =
     [\<lparr>o_value = Op_eq, o_label = ''Equals''\<rparr>]"
| "DEFAULT_OPERATORS Ty_date =
     [\<lparr>o_value = Op_today, o_label = ''Today''\<rparr>,
      \<lparr>o_value = Op_on, o_label = ''On date''\<rparr>,
      \<lparr>o_value = Op_ge, o_label = ''On or after''\<rparr>,
      \<lparr>o_value = Op_le, o_label = ''On or before''\<rparr>,
      \<lparr>o_value = Op_between, o_label = ''Between dates''\<rparr>]"


section \<open>The filter controller (\<^verbatim>\<open>useFilterController.ts\<close>)\<close>

text \<open>One entry of \<^verbatim>\<open>FilterControllerConfig.representedFilters\<close>.\<close>

record RepresentedFilter =
  r_filterId :: string
  r_operator :: FilterOperator
  r_value :: jsvalue

text \<open>
  The predicate both \<^verbatim>\<open>isActive\<close> and \<^verbatim>\<open>getActiveControllerFilterIds\<close> test an applied
  filter with (lines 42-44 and 124-126).
\<close>

definition matchesRepresented :: "RepresentedFilter \<Rightarrow> ActiveFilter \<Rightarrow> bool" where
  "matchesRepresented rf af \<longleftrightarrow>
     a_filterId af = r_filterId rf \<and>
     a_operator af = Some (r_operator rf) \<and>
     stringify (a_value af) = stringify (r_value rf)"

text \<open>\<^verbatim>\<open>isActive\<close>, lines 37-47.\<close>

definition isActive :: "RepresentedFilter list \<Rightarrow> ActiveFilter list \<Rightarrow> bool" where
  "isActive representedFilters activeFilters =
     (if representedFilters = [] then False
      else list_ex (\<lambda>rf. list_ex (matchesRepresented rf) activeFilters) representedFilters)"

text \<open>
  \<^verbatim>\<open>applyFilters\<close>, lines 50-64. \<open>now\<close> is the reading of \<^verbatim>\<open>Date.now()\<close>. The result is the
  list handed to the one call of \<^verbatim>\<open>onFilterChange\<close>.
\<close>

definition newFilter :: "nat \<Rightarrow> nat \<times> RepresentedFilter \<Rightarrow> ActiveFilter" where
  "newFilter now = (\<lambda>(index, rf).
     \<lparr>a_id = r_filterId rf @ ''-'' @ toString (r_value rf) @ ''-'' @ digits now
               @ ''-'' @ digits index,
      a_filterId = r_filterId rf,
      a_operator = Some (r_operator rf),
      a_value = r_value rf\<rparr>)"

definition applyFilters :: "nat \<Rightarrow> RepresentedFilter list \<Rightarrow> ActiveFilter list \<Rightarrow> ActiveFilter list" where
  "applyFilters now representedFilters activeFilters =
     (let filterIds = set (map r_filterId representedFilters);
          otherFilters = filter (\<lambda>af. a_filterId af \<notin> filterIds) activeFilters;
          newFilters = map (newFilter now) (enumerate 0 representedFilters)
      in otherFilters @ newFilters)"

text \<open>\<^verbatim>\<open>removeFilters\<close>, lines 67-71, and \<^verbatim>\<open>toggleFilters\<close>, lines 74-80.\<close>

definition removeFilters :: "RepresentedFilter list \<Rightarrow> ActiveFilter list \<Rightarrow> ActiveFilter list" where
  "removeFilters representedFilters activeFilters =
     (let filterIds = set (map r_filterId representedFilters)
      in filter (\<lambda>af. a_filterId af \<notin> filterIds) activeFilters)"

definition toggleFilters :: "nat \<Rightarrow> RepresentedFilter list \<Rightarrow> ActiveFilter list \<Rightarrow> ActiveFilter list" where
  "toggleFilters now representedFilters activeFilters =
     (if isActive representedFilters activeFilters
      then removeFilters representedFilters activeFilters
      else applyFilters now representedFilters activeFilters)"


section \<open>The toolbar (\<^verbatim>\<open>GenericToolbar\<close>)\<close>

subsection \<open>Props, state and callbacks\<close>

text \<open>
  The props the handlers and the render conditions read, after the defaults of the parameter
  list (\<^verbatim>\<open>showSearch = true\<close>, \<^verbatim>\<open>showFilters = false\<close>, \<^verbatim>\<open>searchValue = ''\<close>,
  \<^verbatim>\<open>availableFilters = []\<close>, \<^verbatim>\<open>activeFilters = []\<close>). Both callbacks are optional and called
  as \<^verbatim>\<open>onSearchChange?.(v)\<close> and \<^verbatim>\<open>onFiltersChange?.(fs)\<close>: the two booleans say whether the
  parent supplied them.
\<close>

record ToolbarProps =
  showSearch :: bool
  showFilters :: bool
  searchValue :: string
  onSearchChange :: bool
  availableFilters :: "AvailableFilter list"
  activeFilters :: "ActiveFilter list"
  onFiltersChange :: bool

datatype FilterMode = Basic | Advanced

text \<open>A call of one of the two callbacks, with its argument.\<close>

datatype Callback = SearchChange string | FiltersChange "ActiveFilter list"

definition callOpt :: "bool \<Rightarrow> Callback \<Rightarrow> Callback list" where
  "callOpt supplied c = (if supplied then [c] else [])"

text \<open>
  The state the handlers read and write: the \<^verbatim>\<open>useState\<close> cells \<^verbatim>\<open>filtersExpanded\<close>,
  \<^verbatim>\<open>filterMode\<close>, \<^verbatim>\<open>localSearchValue\<close> and \<^verbatim>\<open>pendingFilters\<close>, the ref \<^verbatim>\<open>searchDebounceRef\<close>, and the
  host's timer table: each \<^verbatim>\<open>setTimeout\<close> still to fire, as its handle and the search string
  its closure holds. \<^verbatim>\<open>clearTimeout\<close> leaves the handle in the ref.
\<close>

record ToolbarState =
  filtersExpanded :: bool
  filterMode :: FilterMode
  localSearchValue :: string
  pendingFilters :: "ActiveFilter list"
  searchDebounceRef :: "nat option"
  timers :: "(nat \<times> string) list"
  nextTimer :: nat

definition initialState :: "ToolbarProps \<Rightarrow> ToolbarState" where
  "initialState props =
     \<lparr>filtersExpanded = False,
      filterMode = Basic,
      localSearchValue = searchValue props,
      pendingFilters = activeFilters props,
      searchDebounceRef = None,
      timers = [],
      nextTimer = 1\<rparr>"

definition clearTimeout :: "nat \<Rightarrow> (nat \<times> string) list \<Rightarrow> (nat \<times> string) list" where
  "clearTimeout h ts = filter (\<lambda>(h', v). h' \<noteq> h) ts"

text \<open>\<^verbatim>\<open>if (searchDebounceRef.current) { clearTimeout(searchDebounceRef.current); }\<close>\<close>

definition clearDebounce :: "ToolbarState \<Rightarrow> ToolbarState" where
  "clearDebounce st =
     (case searchDebounceRef st of
        None \<Rightarrow> st
      | Some h \<Rightarrow> st\<lparr>timers := clearTimeout h (timers st)\<rparr>)"

text \<open>The effects that copy the props into the local state when a prop changes (lines 101-108).\<close>

definition syncSearchValue :: "ToolbarProps \<Rightarrow> ToolbarState \<Rightarrow> ToolbarState" where
  "syncSearchValue props st = st\<lparr>localSearchValue := searchValue props\<rparr>"

definition syncActiveFilters :: "ToolbarProps \<Rightarrow> ToolbarState \<Rightarrow> ToolbarState" where
  "syncActiveFilters props st = st\<lparr>pendingFilters := activeFilters props\<rparr>"

subsection \<open>Derived values\<close>

text \<open>\<^verbatim>\<open>hasPendingTextFilters\<close>, lines 111-117.\<close>

definition hasPendingTextFilters :: "ToolbarProps \<Rightarrow> ToolbarState \<Rightarrow> bool" where
  "hasPendingTextFilters props st =
     list_ex (\<lambda>pf.
        case find (\<lambda>f. d_id f = a_filterId pf) (availableFilters props) of
          None \<Rightarrow> False
        | Some filterDef \<Rightarrow>
            if d_type filterDef \<noteq> Ty_text \<and> d_type filterDef \<noteq> Ty_number
               \<and> d_type filterDef \<noteq> Ty_numberrange then False
            else stringify (a_value pf) \<noteq>
                 stringify (case find (\<lambda>af. a_filterId af = a_filterId pf) (activeFilters props) of
                              None \<Rightarrow> JUndefined
                            | Some appliedFilter \<Rightarrow> a_value appliedFilter))
       (pendingFilters st)"

text \<open>Lines 120-122.\<close>

definition hasUnappliedSearchChange :: "ToolbarProps \<Rightarrow> ToolbarState \<Rightarrow> bool" where
  "hasUnappliedSearchChange props st \<longleftrightarrow> localSearchValue st \<noteq> searchValue props"

definition hasUnappliedFilterChanges :: "ToolbarProps \<Rightarrow> ToolbarState \<Rightarrow> bool" where
  "hasUnappliedFilterChanges props st \<longleftrightarrow>
     stringifyFilters (pendingFilters st) \<noteq> stringifyFilters (activeFilters props)"

definition hasUnappliedTextChanges :: "ToolbarProps \<Rightarrow> ToolbarState \<Rightarrow> bool" where
  "hasUnappliedTextChanges props st \<longleftrightarrow>
     hasUnappliedSearchChange props st \<or> hasPendingTextFilters props st"

text \<open>\<^verbatim>\<open>availableFiltersToAdd\<close>, lines 251-253.\<close>

definition availableFiltersToAdd :: "ToolbarProps \<Rightarrow> ToolbarState \<Rightarrow> AvailableFilter list" where
  "availableFiltersToAdd props st =
     filter (\<lambda>af. \<not> list_ex (\<lambda>active. a_filterId active = d_id af) (pendingFilters st))
       (availableFilters props)"

text \<open>\<^verbatim>\<open>activeFilterCount\<close>, lines 255-267.\<close>

definition activeFilterCount :: "ToolbarProps \<Rightarrow> nat" where
  "activeFilterCount props =
     length (filter (\<lambda>f.
        if a_operator f = Some Op_today then True
        else if a_value f = JNull \<or> a_value f = JUndefined \<or> a_value f = JStr [] then False
        else if a_value f = JArr [] then False
        else (case a_value f of
                JObj rangeValue \<Rightarrow>
                  truthy (getProp rangeValue ''from'') \<or> truthy (getProp rangeValue ''to'')
                  \<or> truthy (getProp rangeValue ''min'') \<or> truthy (getProp rangeValue ''max'')
              | _ \<Rightarrow> True))
       (activeFilters props))"

subsection \<open>Handlers\<close>

text \<open>
  Every handler takes the props and the state of the render it was created in and returns
  the new state with the callbacks it called, in call order.
\<close>

text \<open>\<^verbatim>\<open>handleFilterModeChange\<close>, lines 76-98.\<close>

definition handleFilterModeChange ::
  "ToolbarProps \<Rightarrow> ToolbarState \<Rightarrow> FilterMode \<Rightarrow> ToolbarState \<times> Callback list" where
  "handleFilterModeChange props st mode =
     (let st1 = st\<lparr>filterMode := mode\<rparr> in
      if mode = Basic then
        let updatedFilters = map (\<lambda>filter.
              case find (\<lambda>f. d_id f = a_filterId filter) (availableFilters props) of
                None \<Rightarrow> filter
              | Some filterDef \<Rightarrow>
                  let operators = (case d_operators filterDef of
                                     Some ops \<Rightarrow> ops
                                   | None \<Rightarrow> DEFAULT_OPERATORS (d_type filterDef));
                      defaultOperator = (case d_defaultOperator filterDef of
                                           Some op \<Rightarrow> Some op
                                         | None \<Rightarrow> (case operators of
                                                      [] \<Rightarrow> None
                                                    | opt # _ \<Rightarrow> Some (o_value opt)))
                  in filter\<lparr>a_operator := defaultOperator\<rparr>)
              (pendingFilters st)
        in (st1\<lparr>pendingFilters := updatedFilters\<rparr>,
            callOpt (onFiltersChange props) (FiltersChange updatedFilters))
      else (st1, []))"

text \<open>\<^verbatim>\<open>handleSearchInputChange\<close>, lines 125-137: the 800 ms timer is entered in the table.\<close>

definition handleSearchInputChange ::
  "ToolbarProps \<Rightarrow> ToolbarState \<Rightarrow> string \<Rightarrow> ToolbarState \<times> Callback list" where
  "handleSearchInputChange props st v =
     (let st1 = clearDebounce (st\<lparr>localSearchValue := v\<rparr>);
          h = nextTimer st1
      in (st1\<lparr>searchDebounceRef := Some h,
              timers := timers st1 @ [(h, v)],
              nextTimer := Suc h\<rparr>, []))"

text \<open>
  The timer with handle \<open>h\<close> fires: its closure calls \<^verbatim>\<open>onSearchChange?.(value)\<close> with the
  string it was created with. A cleared or already fired handle does nothing.
\<close>

definition timerFires ::
  "ToolbarProps \<Rightarrow> ToolbarState \<Rightarrow> nat \<Rightarrow> ToolbarState \<times> Callback list" where
  "timerFires props st h =
     (case map_of (timers st) h of
        None \<Rightarrow> (st, [])
      | Some v \<Rightarrow> (st\<lparr>timers := clearTimeout h (timers st)\<rparr>,
                   callOpt (onSearchChange props) (SearchChange v)))"

text \<open>\<^verbatim>\<open>handleSearchKeyDown\<close>, lines 140-148.\<close>

definition handleSearchKeyDown ::
  "ToolbarProps \<Rightarrow> ToolbarState \<Rightarrow> string \<Rightarrow> ToolbarState \<times> Callback list" where
  "handleSearchKeyDown props st key =
     (if key = ''Enter''
      then (clearDebounce st, callOpt (onSearchChange props) (SearchChange (localSearchValue st)))
      else (st, []))"

text \<open>\<^verbatim>\<open>handleApplyFilters\<close>, lines 151-164.\<close>

definition handleApplyFilters ::
  "ToolbarProps \<Rightarrow> ToolbarState \<Rightarrow> ToolbarState \<times> Callback list" where
  "handleApplyFilters props st =
     (let (st1, calls1) =
            (if hasUnappliedSearchChange props st
             then (clearDebounce st,
                   callOpt (onSearchChange props) (SearchChange (localSearchValue st)))
             else (st, []));
          calls2 =
            (if hasUnappliedFilterChanges props st
             then callOpt (onFiltersChange props) (FiltersChange (pendingFilters st))
             else [])
      in (st1, calls1 @ calls2))"

text \<open>The cleanup of the unmount effect, lines 167-173.\<close>

definition unmount :: "ToolbarState \<Rightarrow> ToolbarState" where
  "unmount st = clearDebounce st"

text \<open>\<^verbatim>\<open>handleAddFilter\<close>, lines 175-194; \<open>now\<close> is the reading of \<^verbatim>\<open>Date.now()\<close>.\<close>

definition handleAddFilter ::
  "ToolbarProps \<Rightarrow> ToolbarState \<Rightarrow> nat \<Rightarrow> string \<Rightarrow> ToolbarState \<times> Callback list" where
  "handleAddFilter props st now filterId =
     (if filterId = [] then (st, [])
      else case find (\<lambda>f. d_id f = filterId) (availableFilters props) of
        None \<Rightarrow> (st, [])
      | Some filterDef \<Rightarrow>
          let operators = (case d_operators filterDef of
                             Some ops \<Rightarrow> ops
                           | None \<Rightarrow> DEFAULT_OPERATORS (d_type filterDef));
              defaultOperator = (case d_defaultOperator filterDef of
                                   Some op \<Rightarrow> Some op
                                 | None \<Rightarrow> (case operators of
                                              [] \<Rightarrow> None
                                            | opt # _ \<Rightarrow> Some (o_value opt)));
              newFilter = \<lparr>a_id = ''filter-'' @ digits now,
                           a_filterId = filterId,
                           a_operator = defaultOperator,
                           a_value = JStr []\<rparr>
          in (st\<lparr>pendingFilters := pendingFilters st @ [newFilter]\<rparr>, []))"

text \<open>\<^verbatim>\<open>handleRemoveFilter\<close>, lines 196-201.\<close>

definition handleRemoveFilter ::
  "ToolbarProps \<Rightarrow> ToolbarState \<Rightarrow> string \<Rightarrow> ToolbarState \<times> Callback list" where
  "handleRemoveFilter props st filterId =
     (let updatedFilters = filter (\<lambda>f. a_id f \<noteq> filterId) (pendingFilters st)
      in (st\<lparr>pendingFilters := updatedFilters\<rparr>,
          callOpt (onFiltersChange props) (FiltersChange updatedFilters)))"

text \<open>\<^verbatim>\<open>handleFilterValueChange\<close>, lines 203-222.\<close>

definition handleFilterValueChange ::
  "ToolbarProps \<Rightarrow> ToolbarState \<Rightarrow> string \<Rightarrow> jsvalue \<Rightarrow> FilterFieldType
     \<Rightarrow> ToolbarState \<times> Callback list" where
  "handleFilterValueChange props st filterId v filterType =
     (let updatedFilters = map (\<lambda>f. if a_id f = filterId then f\<lparr>a_value := v\<rparr> else f)
                               (pendingFilters st);
          st1 = st\<lparr>pendingFilters := updatedFilters\<rparr>
      in if filterType \<noteq> Ty_text then
           let calls1 = callOpt (onFiltersChange props) (FiltersChange updatedFilters)
           in if hasUnappliedSearchChange props st
              then (clearDebounce st1,
                    calls1 @ callOpt (onSearchChange props) (SearchChange (localSearchValue st)))
              else (st1, calls1)
         else (st1, []))"

text \<open>\<^verbatim>\<open>handleOperatorChange\<close>, lines 224-240.\<close>

definition handleOperatorChange ::
  "ToolbarProps \<Rightarrow> ToolbarState \<Rightarrow> string \<Rightarrow> FilterOperator \<Rightarrow> ToolbarState \<times> Callback list" where
  "handleOperatorChange props st filterId operator =
     (let updatedFilters = map (\<lambda>f. if a_id f = filterId then f\<lparr>a_operator := Some operator\<rparr> else f)
                               (pendingFilters st);
          st1 = st\<lparr>pendingFilters := updatedFilters\<rparr>;
          calls1 = callOpt (onFiltersChange props) (FiltersChange updatedFilters)
      in if hasUnappliedSearchChange props st
         then (clearDebounce st1,
               calls1 @ callOpt (onSearchChange props) (SearchChange (localSearchValue st)))
         else (st1, calls1))"

text \<open>\<^verbatim>\<open>handleClearAllFilters\<close>, lines 242-248.\<close>

definition handleClearAllFilters ::
  "ToolbarProps \<Rightarrow> ToolbarState \<Rightarrow> ToolbarState \<times> Callback list" where
  "handleClearAllFilters props st =
     (st\<lparr>pendingFilters := [], localSearchValue := []\<rparr>,
      callOpt (onSearchChange props) (SearchChange [])
      @ callOpt (onFiltersChange props) (FiltersChange []))"

subsection \<open>The wiring of a filter row (lines 503-548)\<close>

text \<open>
  A row is rendered for a pending filter only when its definition is found; the row's value
  field calls \<^verbatim>\<open>handleFilterValueChange(activeFilter.id, value, filterDef.type)\<close>, and Enter in
  it calls \<^verbatim>\<open>handleApplyFilters\<close> through \<^verbatim>\<open>handleKeyDown\<close> of the field renderer.
\<close>

definition fieldOnChange ::
  "ToolbarProps \<Rightarrow> ToolbarState \<Rightarrow> ActiveFilter \<Rightarrow> jsvalue \<Rightarrow> ToolbarState \<times> Callback list" where
  "fieldOnChange props st activeFilter v =
     (case find (\<lambda>f. d_id f = a_filterId activeFilter) (availableFilters props) of
        None \<Rightarrow> (st, [])
      | Some filterDef \<Rightarrow>
          handleFilterValueChange props st (a_id activeFilter) v (d_type filterDef))"

definition handleKeyDown ::
  "ToolbarProps \<Rightarrow> ToolbarState \<Rightarrow> string \<Rightarrow> ToolbarState \<times> Callback list" where
  "handleKeyDown props st key =
     (if key = ''Enter'' then handleApplyFilters props st else (st, []))"

text \<open>The calls of \<^verbatim>\<open>onFiltersChange\<close> in a trace, with their arguments.\<close>

fun filtersCalls :: "Callback list \<Rightarrow> ActiveFilter list list" where
  "filtersCalls [] = []"
| "filtersCalls (SearchChange v # cs) = filtersCalls cs"
| "filtersCalls (FiltersChange fs # cs) = fs # filtersCalls cs"


subsection \<open>Which controls are rendered\<close>

text \<open>
  The conditions under which the JSX renders the controls: the search input (line 274), the
  "Filters" button (line 295) whose click flips \<^verbatim>\<open>filtersExpanded\<close> (line 299), the "Select
  filter to add" row of the open panel (lines 444 and 567), and the two "Clear all" buttons,
  one in the open panel (lines 444 and 484) and one under the toolbar while the panel is
  closed (line 590).
\<close>

definition searchInputRendered :: "ToolbarProps \<Rightarrow> bool" where
  "searchInputRendered props \<longleftrightarrow> showSearch props"

definition filtersButtonRendered :: "ToolbarProps \<Rightarrow> bool" where
  "filtersButtonRendered props \<longleftrightarrow> showFilters props \<and> length (availableFilters props) > 0"

definition toggleFiltersExpanded :: "ToolbarState \<Rightarrow> ToolbarState" where
  "toggleFiltersExpanded st = st\<lparr>filtersExpanded := \<not> filtersExpanded st\<rparr>"

definition addFilterRendered :: "ToolbarProps \<Rightarrow> ToolbarState \<Rightarrow> bool" where
  "addFilterRendered props st \<longleftrightarrow>
     showFilters props \<and> filtersExpanded st \<and> length (availableFiltersToAdd props st) > 0"

definition clearAllRendered :: "ToolbarProps \<Rightarrow> ToolbarState \<Rightarrow> bool" where
  "clearAllRendered props st \<longleftrightarrow>
     (showFilters props \<and> filtersExpanded st \<and> length (pendingFilters st) > 0)
     \<or> (activeFilterCount props > 0 \<and> \<not> filtersExpanded st)"


section \<open>A sample page\<close>

text \<open>
  A page with a text, a select and a number filter, and a toolbar on it in the middle of an
  edit: the filter panel is open in the advanced mode, the search box holds \<^verbatim>\<open>abc\<close> with its
  debounce timer running, three filters are pending and nothing is applied yet. The general results below are instantiated here.
\<close>

definition nameFilter :: AvailableFilter where
  "nameFilter = \<lparr>d_id = ''name'', d_label = ''Name'', d_type = Ty_text, d_options = None,
     d_placeholder = None, d_operators = None, d_defaultOperator = None\<rparr>"

definition statusFilter :: AvailableFilter where
  "statusFilter = \<lparr>d_id = ''status'', d_label = ''Status'', d_type = Ty_select,
     d_options = Some [\<lparr>fo_value = ''open'', fo_label = ''Open''\<rparr>,
                       \<lparr>fo_value = ''closed'', fo_label = ''Closed''\<rparr>],
     d_placeholder = None, d_operators = None, d_defaultOperator = None\<rparr>"

definition ageFilter :: AvailableFilter where
  "ageFilter = \<lparr>d_id = ''age'', d_label = ''Age'', d_type = Ty_number, d_options = None,
     d_placeholder = None, d_operators = None, d_defaultOperator = None\<rparr>"

definition pendingName :: ActiveFilter where
  "pendingName = \<lparr>a_id = ''filter-1'', a_filterId = ''name'', a_operator = Some Op_eq,
     a_value = JStr ''ann''\<rparr>"

definition pendingStatus :: ActiveFilter where
  "pendingStatus = \<lparr>a_id = ''filter-2'', a_filterId = ''status'', a_operator = Some Op_eq,
     a_value = JArr []\<rparr>"

definition pendingAge :: ActiveFilter where
  "pendingAge = \<lparr>a_id = ''filter-3'', a_filterId = ''age'', a_operator = Some Op_gt,
     a_value = JStr []\<rparr>"





definition pageProps :: ToolbarProps where
  "pageProps = \<lparr>showSearch = True, showFilters = True, searchValue = [], onSearchChange = True,
     availableFilters = [nameFilter, statusFilter, ageFilter],
     activeFilters = [], onFiltersChange = True\<rparr>"

definition editingState :: ToolbarState where
  "editingState = \<lparr>filtersExpanded = True, filterMode = Advanced, localSearchValue = ''abc'',
     pendingFilters = [pendingName, pendingStatus, pendingAge],
     searchDebounceRef = Some 1, timers = [(1, ''abc'')], nextTimer = 2\<rparr>"

text \<open>Two controllers: a tab that stands for "status is open", and one with a repeated id.\<close>

definition openTab :: "RepresentedFilter list" where
  "openTab = [\<lparr>r_filterId = ''status'', r_operator = Op_eq, r_value = JArr [JStr ''open'']\<rparr>]"

definition twoStatusTab :: "RepresentedFilter list" where
  "twoStatusTab =
     [\<lparr>r_filterId = ''status'', r_operator = Op_eq, r_value = JStr ''open''\<rparr>,
      \<lparr>r_filterId = ''status'', r_operator = Op_eq, r_value = JStr ''closed''\<rparr>]"

lemmas fixtures =
  nameFilter_def statusFilter_def ageFilter_def pendingName_def pendingStatus_def
  pendingAge_def pageProps_def editingState_def


section \<open>The filter controller: results\<close>

lemma newFilter_filterId:
  "map a_filterId (map (newFilter now) (enumerate n reps)) = map r_filterId reps"
  by (induction reps arbitrary: n) (simp_all add: newFilter_def)

lemma length_filter_map_eq:
  "length (filter (\<lambda>x. f x = k) xs) = length (filter (\<lambda>y. y = k) (map f xs))"
  by (induction xs) simp_all

lemma count_distinct_one:
  "distinct ys \<Longrightarrow> k \<in> set ys \<Longrightarrow> length (filter (\<lambda>y. y = k) ys) = Suc 0"
  by (induction ys) (auto simp: filter_empty_conv)

text \<open>
  C8. For a controller with at least one represented filter and any applied list,
  \<^verbatim>\<open>isActive\<close> recomputed against the list \<^verbatim>\<open>applyFilters\<close> commits is true: the first
  represented triple finds the filter freshly made from it.
\<close>

theorem applyFilters_isActive:
  assumes "reps \<noteq> []"
  shows "isActive reps (applyFilters now reps applied)"
proof -
  from assms obtain r rs where reps: "reps = r # rs" by (cases reps) auto
  have "matchesRepresented r (newFilter now (0, r))"
    by (simp add: matchesRepresented_def newFilter_def)
  moreover have "newFilter now (0, r) \<in> set (applyFilters now reps applied)"
    by (simp add: applyFilters_def reps)
  ultimately have "list_ex (matchesRepresented r) (applyFilters now reps applied)"
    unfolding list_ex_iff by blast
  then show ?thesis
    by (simp add: isActive_def reps)
qed

theorem applyFilters_isActive_witness:
  "openTab \<noteq> [] \<and> \<not> isActive openTab [pendingName]
   \<and> isActive openTab (applyFilters 1700000000000 openTab [pendingName])"
  using applyFilters_isActive [of openTab 1700000000000 "[pendingName]"]
  by (simp add: openTab_def pendingName_def isActive_def matchesRepresented_def)

text \<open>
  C9, as the code has it. The committed list holds, for a represented filter id, exactly as
  many filters as the controller has triples with that id: one when the triples' ids are
  pairwise distinct. Applied filters with other ids are kept as they were, in order.
\<close>

theorem applyFilters_per_filterId:
  assumes "fid \<in> set (map r_filterId reps)"
  shows "length (filter (\<lambda>af. a_filterId af = fid) (applyFilters now reps applied))
           = length (filter (\<lambda>rf. r_filterId rf = fid) reps)
         \<and> (distinct (map r_filterId reps) \<longrightarrow>
              length (filter (\<lambda>af. a_filterId af = fid) (applyFilters now reps applied)) = 1)
         \<and> filter (\<lambda>af. a_filterId af \<notin> set (map r_filterId reps)) (applyFilters now reps applied)
             = filter (\<lambda>af. a_filterId af \<notin> set (map r_filterId reps)) applied"
proof -
  let ?ids = "set (map r_filterId reps)"
  let ?new = "map (newFilter now) (enumerate 0 reps)"
  let ?other = "filter (\<lambda>af. a_filterId af \<notin> ?ids) applied"
  have res: "applyFilters now reps applied = ?other @ ?new"
    by (simp add: applyFilters_def Let_def)
  have other: "filter (\<lambda>af. a_filterId af = fid) ?other = []"
    using assms by (auto simp: filter_empty_conv)
  have new: "length (filter (\<lambda>af. a_filterId af = fid) ?new)
               = length (filter (\<lambda>rf. r_filterId rf = fid) reps)"
    by (simp only: length_filter_map_eq [of a_filterId] length_filter_map_eq [of r_filterId]
          newFilter_filterId)
  have count: "length (filter (\<lambda>af. a_filterId af = fid) (applyFilters now reps applied))
                 = length (filter (\<lambda>rf. r_filterId rf = fid) reps)"
    by (simp only: res filter_append other new append_Nil)
  have one: "distinct (map r_filterId reps) \<longrightarrow>
               length (filter (\<lambda>af. a_filterId af = fid) (applyFilters now reps applied)) = 1"
    using count count_distinct_one [of "map r_filterId reps" fid] assms
    by (simp add: length_filter_map_eq [of r_filterId])
  have "set (map a_filterId ?new) = ?ids"
    by (simp only: newFilter_filterId)
  then have "\<forall>af \<in> set ?new. a_filterId af \<in> ?ids"
    by auto
  then have "filter (\<lambda>af. a_filterId af \<notin> ?ids) ?new = []"
    by (simp add: filter_empty_conv)
  then have keep: "filter (\<lambda>af. a_filterId af \<notin> ?ids) (applyFilters now reps applied) = ?other"
    by (simp only: res filter_append filter_filter append_Nil2) simp
  from count one keep show ?thesis by blast
qed

theorem applyFilters_per_filterId_witness:
  "''status'' \<in> set (map r_filterId openTab) \<and> distinct (map r_filterId openTab)
   \<and> map a_filterId (applyFilters 5 openTab [pendingStatus, pendingName]) = [''name'', ''status'']
   \<and> length (filter (\<lambda>af. a_filterId af = ''status'')
               (applyFilters 5 openTab [pendingStatus, pendingName])) = 1"
  using applyFilters_per_filterId [of "''status''" openTab 5 "[pendingStatus, pendingName]"]
  by (simp add: openTab_def pendingStatus_def pendingName_def applyFilters_def newFilter_def)

text \<open>
  C9 as stated fails for a controller that represents the same filter id twice: both fresh
  filters are appended, and the committed list holds two filters with that id.
\<close>

theorem applyFilters_duplicate_counterexample:
  "map a_filterId (applyFilters 5 twoStatusTab [pendingName]) = [''name'', ''status'', ''status'']"
  by (simp add: twoStatusTab_def pendingName_def applyFilters_def newFilter_def)


section \<open>The toolbar: results\<close>

lemmas handlers =
  fieldOnChange_def handleFilterValueChange_def handleOperatorChange_def handleKeyDown_def
  handleApplyFilters_def handleRemoveFilter_def handleFilterModeChange_def
  handleClearAllFilters_def callOpt_def hasUnappliedSearchChange_def Let_def

lemma editing_filter_changes: "hasUnappliedFilterChanges pageProps editingState"
  by (simp add: fixtures hasUnappliedFilterChanges_def stringifyFilters_def filterObject_def
        quoteJSONString_def quoteChar_def)

lemma pendingFilters_clearDebounce [simp]:
  "pendingFilters (clearDebounce st) = pendingFilters st"
  by (simp add: clearDebounce_def split: option.splits)

subsection \<open>Which edits commit at once\<close>

text \<open>
  C1 as stated fails for a number filter: the guard of \<^verbatim>\<open>handleFilterValueChange\<close> is
  \<^verbatim>\<open>filterType !== 'text'\<close>, so typing 5 into the age field calls \<^verbatim>\<open>onFiltersChange\<close> at
  once, with the whole pending list.
\<close>

theorem number_edit_commits_counterexample:
  "snd (fieldOnChange pageProps (editingState\<lparr>localSearchValue := []\<rparr>) pendingAge (JNum 5))
     = [FiltersChange [pendingName, pendingStatus, pendingAge\<lparr>a_value := JNum 5\<rparr>]]"
  by (simp add: fixtures handlers)

text \<open>
  C1, as the code has it (\<^verbatim>\<open>onFiltersChange\<close> supplied). A value change of a filter whose
  definition has type \<^verbatim>\<open>text\<close> calls no callback and only updates the pending list; a value
  change of a \<^verbatim>\<open>number\<close> or \<^verbatim>\<open>numberrange\<close> filter calls \<^verbatim>\<open>onFiltersChange\<close> once, with the
  updated pending list. Enter in a value field and "Apply Filters" call \<^verbatim>\<open>onFiltersChange\<close>
  exactly once, with the complete pending list, when the serialized pending list differs from
  the serialized applied list, and not at all otherwise.
\<close>

theorem text_edit_buffered_until_apply:
  assumes "onFiltersChange props"
  shows "(find (\<lambda>f. d_id f = a_filterId af) (availableFilters props) = Some filterDef
            \<and> d_type filterDef = Ty_text \<longrightarrow>
          snd (fieldOnChange props st af v) = []
          \<and> pendingFilters (fst (fieldOnChange props st af v))
              = map (\<lambda>f. if a_id f = a_id af then f\<lparr>a_value := v\<rparr> else f) (pendingFilters st))
       \<and> (find (\<lambda>f. d_id f = a_filterId af) (availableFilters props) = Some filterDef
            \<and> d_type filterDef \<in> {Ty_number, Ty_numberrange} \<longrightarrow>
          filtersCalls (snd (fieldOnChange props st af v))
              = [map (\<lambda>f. if a_id f = a_id af then f\<lparr>a_value := v\<rparr> else f) (pendingFilters st)])
       \<and> filtersCalls (snd (handleKeyDown props st ''Enter''))
              = (if hasUnappliedFilterChanges props st then [pendingFilters st] else [])
       \<and> filtersCalls (snd (handleApplyFilters props st))
              = (if hasUnappliedFilterChanges props st then [pendingFilters st] else [])"
  using assms
  by (auto simp add: fieldOnChange_def handleFilterValueChange_def handleKeyDown_def
        handleApplyFilters_def callOpt_def Let_def)

theorem text_edit_buffered_until_apply_witness:
  "onFiltersChange pageProps
   \<and> find (\<lambda>f. d_id f = a_filterId pendingName) (availableFilters pageProps) = Some nameFilter
   \<and> d_type nameFilter = Ty_text
   \<and> snd (fieldOnChange pageProps editingState pendingName (JStr ''bob'')) = []
   \<and> find (\<lambda>f. d_id f = a_filterId pendingAge) (availableFilters pageProps) = Some ageFilter
   \<and> d_type ageFilter = Ty_number
   \<and> filtersCalls (snd (fieldOnChange pageProps editingState pendingAge (JNum 5)))
       = [[pendingName, pendingStatus, pendingAge\<lparr>a_value := JNum 5\<rparr>]]
   \<and> hasUnappliedFilterChanges pageProps editingState
   \<and> filtersCalls (snd (handleApplyFilters pageProps
         (fst (fieldOnChange pageProps editingState pendingName (JStr ''bob'')))))
       = [[pendingName\<lparr>a_value := JStr ''bob''\<rparr>, pendingStatus, pendingAge]]"
proof -
  let ?st1 = "fst (fieldOnChange pageProps editingState pendingName (JStr ''bob''))"
  have h: "onFiltersChange pageProps"
    by (simp add: pageProps_def)
  have dn: "find (\<lambda>f. d_id f = a_filterId pendingName) (availableFilters pageProps) = Some nameFilter
            \<and> d_type nameFilter = Ty_text"
    by (simp add: fixtures)
  have da: "find (\<lambda>f. d_id f = a_filterId pendingAge) (availableFilters pageProps) = Some ageFilter
            \<and> d_type ageFilter \<in> {Ty_number, Ty_numberrange}"
    by (simp add: fixtures)
  have p1: "pendingFilters ?st1 = [pendingName\<lparr>a_value := JStr ''bob''\<rparr>, pendingStatus, pendingAge]"
    by (simp add: fixtures handlers)
  have ch: "hasUnappliedFilterChanges pageProps ?st1"
    unfolding hasUnappliedFilterChanges_def p1
    by (simp add: stringifyFilters_def filterObject_def quoteJSONString_def quoteChar_def fixtures)
  note t1 = text_edit_buffered_until_apply [OF h, of pendingName nameFilter editingState "JStr ''bob''"]
  note t2 = text_edit_buffered_until_apply [OF h, of pendingAge ageFilter editingState "JNum 5"]
  note t3 = text_edit_buffered_until_apply [OF h, of pendingName nameFilter ?st1 "JStr ''bob''"]
  from t1 dn have a: "snd (fieldOnChange pageProps editingState pendingName (JStr ''bob'')) = []"
    by blast
  from t2 da have "filtersCalls (snd (fieldOnChange pageProps editingState pendingAge (JNum 5)))
       = [map (\<lambda>f. if a_id f = a_id pendingAge then f\<lparr>a_value := JNum 5\<rparr> else f)
            (pendingFilters editingState)]"
    by blast
  then have b: "filtersCalls (snd (fieldOnChange pageProps editingState pendingAge (JNum 5)))
       = [[pendingName, pendingStatus, pendingAge\<lparr>a_value := JNum 5\<rparr>]]"
    by (simp add: fixtures)
  from t3 ch have c: "filtersCalls (snd (handleApplyFilters pageProps ?st1)) = [pendingFilters ?st1]"
    by simp
  from h dn da a b c editing_filter_changes show ?thesis
    by (simp add: p1 ageFilter_def)
qed

text \<open>
  C2. With both callbacks supplied: a value change of a filter whose definition has type
  \<^verbatim>\<open>select\<close>, \<^verbatim>\<open>multiselect\<close>, \<^verbatim>\<open>date\<close>, \<^verbatim>\<open>checkbox\<close> or \<^verbatim>\<open>boolean\<close>, and an operator change
  of any filter, call \<^verbatim>\<open>onFiltersChange\<close> in the handler itself with the updated list (the
  edited filter carries the new value or operator, every other entry is as it was), and
  after it \<^verbatim>\<open>onSearchChange\<close> with the pending search text if that differs from the applied
  one; no other call is made.
\<close>

theorem auto_commit_same_step:
  assumes "onFiltersChange props" and "onSearchChange props"
  shows "(find (\<lambda>f. d_id f = a_filterId af) (availableFilters props) = Some filterDef
            \<and> d_type filterDef \<in> {Ty_select, Ty_multiselect, Ty_date, Ty_checkbox, Ty_boolean}
          \<longrightarrow> (\<exists>fs. snd (fieldOnChange props st af v)
                     = FiltersChange fs #
                       (if hasUnappliedSearchChange props st
                        then [SearchChange (localSearchValue st)] else [])
                  \<and> length fs = length (pendingFilters st)
                  \<and> (\<forall>i < length fs.
                        fs ! i = (if a_id (pendingFilters st ! i) = a_id af
                                  then (pendingFilters st ! i)\<lparr>a_value := v\<rparr>
                                  else pendingFilters st ! i))))
         \<and> (\<exists>fs. snd (handleOperatorChange props st filterId operator)
                     = FiltersChange fs #
                       (if hasUnappliedSearchChange props st
                        then [SearchChange (localSearchValue st)] else [])
                  \<and> length fs = length (pendingFilters st)
                  \<and> (\<forall>i < length fs.
                        fs ! i = (if a_id (pendingFilters st ! i) = filterId
                                  then (pendingFilters st ! i)\<lparr>a_operator := Some operator\<rparr>
                                  else pendingFilters st ! i)))"
  using assms
  by (auto simp add: fieldOnChange_def handleFilterValueChange_def handleOperatorChange_def
        callOpt_def Let_def)

theorem auto_commit_same_step_witness:
  "onFiltersChange pageProps \<and> onSearchChange pageProps
   \<and> find (\<lambda>f. d_id f = a_filterId pendingStatus) (availableFilters pageProps) = Some statusFilter
   \<and> d_type statusFilter = Ty_select
   \<and> hasUnappliedSearchChange pageProps editingState
   \<and> snd (fieldOnChange pageProps editingState pendingStatus (JArr [JStr ''open'']))
       = [FiltersChange [pendingName, pendingStatus\<lparr>a_value := JArr [JStr ''open'']\<rparr>, pendingAge],
          SearchChange ''abc'']
   \<and> snd (handleOperatorChange pageProps (editingState\<lparr>localSearchValue := []\<rparr>) ''filter-3'' Op_lt)
       = [FiltersChange [pendingName, pendingStatus, pendingAge\<lparr>a_operator := Some Op_lt\<rparr>]]"
  using auto_commit_same_step [of pageProps pendingStatus statusFilter editingState
          "JArr [JStr ''open'']" "''filter-3''" Op_lt]
  by (simp add: fixtures handlers)

subsection \<open>Order of the two callbacks\<close>

text \<open>
  C3 as stated fails for the auto-committing handlers: with \<^verbatim>\<open>abc\<close> pending in the search
  box, changing the operator of the name row from "Equals" to "Contains" calls
  \<^verbatim>\<open>onFiltersChange\<close> first and \<^verbatim>\<open>onSearchChange\<close> second.
\<close>

theorem operator_change_order_counterexample:
  "snd (handleOperatorChange pageProps editingState ''filter-1'' Op_regex)
     = [FiltersChange [pendingName\<lparr>a_operator := Some Op_regex\<rparr>, pendingStatus, pendingAge],
        SearchChange ''abc'']"
  by (simp add: fixtures handlers)

text \<open>
  C3, as the code has it (both callbacks supplied, a search edit pending). "Apply Filters"
  with a pending filter change calls \<^verbatim>\<open>onSearchChange\<close> and then \<^verbatim>\<open>onFiltersChange\<close>; a value
  change of a filter of any type but \<^verbatim>\<open>text\<close>, and an operator change, call
  \<^verbatim>\<open>onFiltersChange\<close> and then \<^verbatim>\<open>onSearchChange\<close>. Both calls are made by the one handler
  run.
\<close>

theorem commit_order:
  assumes "onSearchChange props" and "onFiltersChange props"
    and "hasUnappliedSearchChange props st"
  shows "(hasUnappliedFilterChanges props st \<longrightarrow>
            snd (handleApplyFilters props st)
              = [SearchChange (localSearchValue st), FiltersChange (pendingFilters st)])
       \<and> (filterType \<noteq> Ty_text \<longrightarrow>
            snd (handleFilterValueChange props st filterId v filterType)
              = [FiltersChange (pendingFilters (fst (handleFilterValueChange props st filterId v filterType))),
                 SearchChange (localSearchValue st)])
       \<and> snd (handleOperatorChange props st filterId operator)
              = [FiltersChange (pendingFilters (fst (handleOperatorChange props st filterId operator))),
                 SearchChange (localSearchValue st)]"
  using assms
  by (auto simp add: handleFilterValueChange_def handleOperatorChange_def
        handleApplyFilters_def callOpt_def Let_def clearDebounce_def split: option.splits)

theorem commit_order_witness:
  "onSearchChange pageProps \<and> onFiltersChange pageProps
   \<and> hasUnappliedSearchChange pageProps editingState
   \<and> hasUnappliedFilterChanges pageProps editingState
   \<and> snd (handleApplyFilters pageProps editingState)
       = [SearchChange ''abc'', FiltersChange [pendingName, pendingStatus, pendingAge]]
   \<and> Ty_select \<noteq> Ty_text
   \<and> snd (handleFilterValueChange pageProps editingState ''filter-2'' (JArr [JStr ''closed'']) Ty_select)
       = [FiltersChange [pendingName, pendingStatus\<lparr>a_value := JArr [JStr ''closed'']\<rparr>, pendingAge],
          SearchChange ''abc'']"
proof -
  have h1: "onSearchChange pageProps" and h2: "onFiltersChange pageProps"
    and h3: "hasUnappliedSearchChange pageProps editingState"
    by (simp_all add: fixtures hasUnappliedSearchChange_def)
  note t = commit_order [OF h1 h2 h3, of Ty_select "''filter-2''" "JArr [JStr ''closed'']" Op_eq]
  from t editing_filter_changes
  have a: "snd (handleApplyFilters pageProps editingState)
       = [SearchChange (localSearchValue editingState), FiltersChange (pendingFilters editingState)]"
    by blast
  from t have b: "snd (handleFilterValueChange pageProps editingState ''filter-2''
                    (JArr [JStr ''closed'']) Ty_select)
       = [FiltersChange (pendingFilters (fst (handleFilterValueChange pageProps editingState
                    ''filter-2'' (JArr [JStr ''closed'']) Ty_select))),
          SearchChange (localSearchValue editingState)]"
    by simp
  have p: "pendingFilters (fst (handleFilterValueChange pageProps editingState
                    ''filter-2'' (JArr [JStr ''closed'']) Ty_select))
       = [pendingName, pendingStatus\<lparr>a_value := JArr [JStr ''closed'']\<rparr>, pendingAge]"
    by (simp add: fixtures handlers)
  from h1 h2 h3 editing_filter_changes a b show ?thesis
    by (simp add: p) (simp add: editingState_def)
qed

subsection \<open>The debounce timer\<close>

text \<open>
  Enter in the search box and unmount clear the timer the ref holds, and so does "Apply
  Filters" when a search edit is pending.
\<close>

lemma explicit_commits_cancel_timer:
  assumes "searchDebounceRef st = Some h"
  shows "map_of (timers (fst (handleSearchKeyDown props st ''Enter''))) h = None"
    and "map_of (timers (unmount st)) h = None"
    and "hasUnappliedSearchChange props st \<Longrightarrow>
           map_of (timers (fst (handleApplyFilters props st))) h = None"
  using assms
  by (auto simp add: handleSearchKeyDown_def unmount_def handleApplyFilters_def clearDebounce_def
        clearTimeout_def map_of_eq_None_iff)

text \<open>
  C4 fails at clear-all. On the sample page with a fresh toolbar the user opens the filter
  panel, adds the name filter, types \<^verbatim>\<open>abc\<close> into the search box and, before the 800 ms are
  over, clicks the "Clear all" button of the panel. Every control used is rendered when it is
  used. \<^verbatim>\<open>handleClearAllFilters\<close> calls \<^verbatim>\<open>onSearchChange('')\<close> and \<^verbatim>\<open>onFiltersChange([])\<close> and
  empties the search box, but it never calls \<^verbatim>\<open>clearTimeout\<close>: timer 1 stays in the table,
  and when it fires it calls \<^verbatim>\<open>onSearchChange('abc')\<close>.
\<close>

theorem clearAll_keeps_timer:
  "(let s1 = toggleFiltersExpanded (initialState pageProps);
        s2 = fst (handleAddFilter pageProps s1 1700000000000 ''name'');
        s3 = fst (handleSearchInputChange pageProps s2 ''abc'');
        r4 = handleClearAllFilters pageProps s3;
        r5 = timerFires pageProps (fst r4) 1
    in (searchInputRendered pageProps, filtersButtonRendered pageProps,
        addFilterRendered pageProps s1, map d_id (availableFiltersToAdd pageProps s1),
        map a_filterId (pendingFilters s3), clearAllRendered pageProps s3,
        snd r4, localSearchValue (fst r4), timers (fst r4), snd r5))
   = (True, True, True, [''name'', ''status'', ''age''], [''name''], True,
      [SearchChange [], FiltersChange []], [], [(1, ''abc'')], [SearchChange ''abc''])"
  by (simp add: fixtures initialState_def toggleFiltersExpanded_def handleAddFilter_def
        handleSearchInputChange_def clearDebounce_def handleClearAllFilters_def timerFires_def
        callOpt_def clearTimeout_def Let_def searchInputRendered_def filtersButtonRendered_def
        addFilterRendered_def clearAllRendered_def availableFiltersToAdd_def)

subsection \<open>Clear-all and the basic mode\<close>

text \<open>
  C5. Whatever the pending search text and the pending filters are, clear-all calls
  \<^verbatim>\<open>onSearchChange('')\<close> and then \<^verbatim>\<open>onFiltersChange([])\<close>, and nothing else (both
  callbacks supplied).
\<close>

theorem clearAll_two_calls:
  assumes "onSearchChange props" and "onFiltersChange props"
  shows "snd (handleClearAllFilters props st) = [SearchChange [], FiltersChange []]"
  using assms by (simp add: handleClearAllFilters_def callOpt_def)

theorem clearAll_two_calls_witness:
  "onSearchChange pageProps \<and> onFiltersChange pageProps
   \<and> localSearchValue editingState = ''abc'' \<and> length (pendingFilters editingState) = 3
   \<and> snd (handleClearAllFilters pageProps editingState) = [SearchChange [], FiltersChange []]"
  using clearAll_two_calls [of pageProps editingState]
  by (simp add: pageProps_def editingState_def)

lemma type_default_operator:
  "(case DEFAULT_OPERATORS t of [] \<Rightarrow> None | opt # _ \<Rightarrow> Some (o_value opt))
     = Some (o_value (hd (DEFAULT_OPERATORS t)))"
  by (cases t) simp_all

text \<open>
  C6. Switching to the basic mode calls \<^verbatim>\<open>onFiltersChange\<close> exactly once (callback
  supplied). The list it passes has the pending filters in order, each with its id, filter
  id and value unchanged; a filter whose definition is found has that definition's default
  operator: \<^verbatim>\<open>defaultOperator\<close> when given, else the first entry of the definition's own
  \<^verbatim>\<open>operators\<close>, else the first entry of \<^verbatim>\<open>DEFAULT_OPERATORS\<close> for its type.
\<close>

theorem basic_mode_resets_operators:
  assumes "onFiltersChange props"
  shows "\<exists>fs. snd (handleFilterModeChange props st Basic) = [FiltersChange fs]
     \<and> length fs = length (pendingFilters st)
     \<and> (\<forall>i < length fs.
          a_id (fs ! i) = a_id (pendingFilters st ! i)
        \<and> a_filterId (fs ! i) = a_filterId (pendingFilters st ! i)
        \<and> a_value (fs ! i) = a_value (pendingFilters st ! i)
        \<and> (\<forall>filterDef.
              find (\<lambda>f. d_id f = a_filterId (pendingFilters st ! i)) (availableFilters props)
                = Some filterDef \<longrightarrow>
              a_operator (fs ! i) =
                (case d_defaultOperator filterDef of
                   Some op \<Rightarrow> Some op
                 | None \<Rightarrow> (case d_operators filterDef of
                              None \<Rightarrow> Some (o_value (hd (DEFAULT_OPERATORS (d_type filterDef))))
                            | Some [] \<Rightarrow> None
                            | Some (opt # rest) \<Rightarrow> Some (o_value opt)))))"
  using assms
  by (auto simp add: handleFilterModeChange_def callOpt_def Let_def type_default_operator
        split: option.splits list.splits)

theorem basic_mode_resets_operators_witness:
  "onFiltersChange pageProps \<and> filterMode editingState = Advanced
   \<and> a_operator pendingName = Some Op_eq
   \<and> snd (handleFilterModeChange pageProps editingState Basic)
       = [FiltersChange [pendingName\<lparr>a_operator := Some Op_regex\<rparr>,
                         pendingStatus,
                         pendingAge\<lparr>a_operator := Some Op_eq\<rparr>]]"
proof -
  have h: "onFiltersChange pageProps"
    by (simp add: pageProps_def)
  have ev: "snd (handleFilterModeChange pageProps editingState Basic)
       = [FiltersChange [pendingName\<lparr>a_operator := Some Op_regex\<rparr>,
                         pendingStatus,
                         pendingAge\<lparr>a_operator := Some Op_eq\<rparr>]]"
    by (simp add: fixtures handleFilterModeChange_def callOpt_def Let_def)
  from basic_mode_resets_operators [OF h, of editingState]
  obtain fs where one: "snd (handleFilterModeChange pageProps editingState Basic) = [FiltersChange fs]"
    by blast
  with ev have "fs = [pendingName\<lparr>a_operator := Some Op_regex\<rparr>, pendingStatus,
                      pendingAge\<lparr>a_operator := Some Op_eq\<rparr>]"
    by simp
  with one h show ?thesis
    by (simp add: editingState_def pendingName_def)
qed

subsection \<open>The active filter count\<close>






subsection \<open>What a call of \<^verbatim>\<open>onFiltersChange\<close> carries\<close>

lemma filter_other_value:
  "filter (\<lambda>g. a_id g \<noteq> fid) (map (\<lambda>f. if a_id f = fid then f\<lparr>a_value := v\<rparr> else f) xs)
     = filter (\<lambda>g. a_id g \<noteq> fid) xs"
  by (induction xs) simp_all

lemma filter_other_operator:
  "filter (\<lambda>g. a_id g \<noteq> fid) (map (\<lambda>f. if a_id f = fid then f\<lparr>a_operator := x\<rparr> else f) xs)
     = filter (\<lambda>g. a_id g \<noteq> fid) xs"
  by (induction xs) simp_all

text \<open>
  C10. With \<^verbatim>\<open>onFiltersChange\<close> supplied, a value change of a filter of any type but
  \<^verbatim>\<open>text\<close>, an operator change, the removal of a filter, the switch to the basic mode and
  clear-all each call \<^verbatim>\<open>onFiltersChange\<close> exactly once, with the complete pending list the
  handler leaves behind, and "Apply Filters" passes that list whenever it calls. For a value
  or operator change of the filter with id \<open>fid\<close> the pending entries of all other filters
  are in that list unchanged and in order; a removal drops the entries with id \<open>fid\<close> and
  keeps the rest. So an edit still buffered in another filter, a text filter included, is
  committed with it.
\<close>

theorem filters_calls_carry_pending:
  assumes "onFiltersChange props"
  shows "(filterType \<noteq> Ty_text \<longrightarrow>
            filtersCalls (snd (handleFilterValueChange props st fid v filterType))
              = [pendingFilters (fst (handleFilterValueChange props st fid v filterType))])
       \<and> filter (\<lambda>g. a_id g \<noteq> fid)
            (pendingFilters (fst (handleFilterValueChange props st fid v filterType)))
           = filter (\<lambda>g. a_id g \<noteq> fid) (pendingFilters st)
       \<and> filtersCalls (snd (handleOperatorChange props st fid operator))
           = [pendingFilters (fst (handleOperatorChange props st fid operator))]
       \<and> filter (\<lambda>g. a_id g \<noteq> fid)
            (pendingFilters (fst (handleOperatorChange props st fid operator)))
           = filter (\<lambda>g. a_id g \<noteq> fid) (pendingFilters st)
       \<and> filtersCalls (snd (handleRemoveFilter props st fid))
           = [pendingFilters (fst (handleRemoveFilter props st fid))]
       \<and> pendingFilters (fst (handleRemoveFilter props st fid))
           = filter (\<lambda>g. a_id g \<noteq> fid) (pendingFilters st)
       \<and> filtersCalls (snd (handleFilterModeChange props st Basic))
           = [pendingFilters (fst (handleFilterModeChange props st Basic))]
       \<and> filtersCalls (snd (handleClearAllFilters props st))
           = [pendingFilters (fst (handleClearAllFilters props st))]
       \<and> (\<forall>fs \<in> set (filtersCalls (snd (handleApplyFilters props st))).
             fs = pendingFilters (fst (handleApplyFilters props st)))"
proof -
  have a: "filterType \<noteq> Ty_text \<longrightarrow>
            filtersCalls (snd (handleFilterValueChange props st fid v filterType))
              = [pendingFilters (fst (handleFilterValueChange props st fid v filterType))]"
    using assms by (simp add: handleFilterValueChange_def callOpt_def Let_def)
  have b: "filter (\<lambda>g. a_id g \<noteq> fid)
            (pendingFilters (fst (handleFilterValueChange props st fid v filterType)))
           = filter (\<lambda>g. a_id g \<noteq> fid) (pendingFilters st)"
    by (simp add: handleFilterValueChange_def Let_def filter_other_value)
  have c: "filtersCalls (snd (handleOperatorChange props st fid operator))
           = [pendingFilters (fst (handleOperatorChange props st fid operator))]"
    using assms by (simp add: handleOperatorChange_def callOpt_def Let_def)
  have d: "filter (\<lambda>g. a_id g \<noteq> fid)
            (pendingFilters (fst (handleOperatorChange props st fid operator)))
           = filter (\<lambda>g. a_id g \<noteq> fid) (pendingFilters st)"
    by (simp add: handleOperatorChange_def Let_def filter_other_operator)
  have e: "filtersCalls (snd (handleRemoveFilter props st fid))
           = [pendingFilters (fst (handleRemoveFilter props st fid))]"
    using assms by (simp add: handleRemoveFilter_def callOpt_def Let_def)
  have f: "pendingFilters (fst (handleRemoveFilter props st fid))
           = filter (\<lambda>g. a_id g \<noteq> fid) (pendingFilters st)"
    by (simp add: handleRemoveFilter_def Let_def)
  have g: "filtersCalls (snd (handleFilterModeChange props st Basic))
           = [pendingFilters (fst (handleFilterModeChange props st Basic))]"
    using assms by (simp add: handleFilterModeChange_def callOpt_def Let_def)
  have h: "filtersCalls (snd (handleClearAllFilters props st))
           = [pendingFilters (fst (handleClearAllFilters props st))]"
    using assms by (simp add: handleClearAllFilters_def callOpt_def)
  have i: "\<forall>fs \<in> set (filtersCalls (snd (handleApplyFilters props st))).
             fs = pendingFilters (fst (handleApplyFilters props st))"
    by (simp add: handleApplyFilters_def callOpt_def Let_def)
  from a b c d e f g h i show ?thesis by blast
qed

theorem filters_calls_carry_pending_witness:
  "onFiltersChange pageProps \<and> Ty_select \<noteq> Ty_text
   \<and> snd (fieldOnChange pageProps editingState pendingName (JStr ''bob'')) = []
   \<and> filtersCalls (snd (handleFilterValueChange pageProps
         (fst (fieldOnChange pageProps editingState pendingName (JStr ''bob'')))
         ''filter-2'' (JArr [JStr ''open'']) Ty_select))
       = [[pendingName\<lparr>a_value := JStr ''bob''\<rparr>,
           pendingStatus\<lparr>a_value := JArr [JStr ''open'']\<rparr>,
           pendingAge]]
   \<and> filtersCalls (snd (handleRemoveFilter pageProps
         (fst (fieldOnChange pageProps editingState pendingName (JStr ''bob''))) ''filter-3''))
       = [[pendingName\<lparr>a_value := JStr ''bob''\<rparr>, pendingStatus]]
   \<and> [pendingName, pendingStatus, pendingAge]
       \<in> set (filtersCalls (snd (handleApplyFilters pageProps editingState)))"
proof -
  let ?st1 = "fst (fieldOnChange pageProps editingState pendingName (JStr ''bob''))"
  have h: "onFiltersChange pageProps"
    by (simp add: pageProps_def)
  have p1: "pendingFilters ?st1 = [pendingName\<lparr>a_value := JStr ''bob''\<rparr>, pendingStatus, pendingAge]"
    by (simp add: fixtures handlers)
  have b: "snd (fieldOnChange pageProps editingState pendingName (JStr ''bob'')) = []"
    by (simp add: fixtures handlers)
  note t = filters_calls_carry_pending [OF h, of Ty_select ?st1 "''filter-2''" "JArr [JStr ''open'']" Op_in]
  have p2: "pendingFilters (fst (handleFilterValueChange pageProps ?st1 ''filter-2''
              (JArr [JStr ''open'']) Ty_select))
       = [pendingName\<lparr>a_value := JStr ''bob''\<rparr>,
          pendingStatus\<lparr>a_value := JArr [JStr ''open'']\<rparr>, pendingAge]"
    by (simp add: handleFilterValueChange_def Let_def p1) (simp add: fixtures)
  from t have c: "filtersCalls (snd (handleFilterValueChange pageProps ?st1 ''filter-2''
              (JArr [JStr ''open'']) Ty_select))
       = [pendingFilters (fst (handleFilterValueChange pageProps ?st1 ''filter-2''
              (JArr [JStr ''open'']) Ty_select))]"
    by simp
  note t' = filters_calls_carry_pending [OF h, of Ty_select ?st1 "''filter-3''" JNull Op_in]
  from t' have d: "filtersCalls (snd (handleRemoveFilter pageProps ?st1 ''filter-3''))
       = [filter (\<lambda>g. a_id g \<noteq> ''filter-3'') (pendingFilters ?st1)]"
    by simp
  have a: "filtersCalls (snd (handleApplyFilters pageProps editingState))
             = [[pendingName, pendingStatus, pendingAge]]"
    using editing_filter_changes h
    by (simp add: handleApplyFilters_def callOpt_def Let_def) (simp add: editingState_def)
  from h b c d a show ?thesis
    by (simp add: p1 p2) (simp add: fixtures)
qed

end
